theory Spec2Isabelle
  imports Main "HOL-Library.Word" "HOL-Library.Sublist"
begin

section \<open>The email-capture server\<close>

text \<open>
  A shallow embedding of the Express route callbacks of the server file and of the SQL
  statements they send to the \<open>email_subscribers\<close> relation. The relation is a list of
  rows in insertion order together with the counter behind its \<open>SERIAL\<close> key. A
  statement is a function on that table; the failures a statement has here are the ones
  the schema of \<open>initializeDatabase\<close> causes: a text that is no address for the \<open>INET\<close>
  column (SQLSTATE 22P02), a \<open>SERIAL\<close> sequence that has run out (2200H), and a violation
  of a \<open>UNIQUE\<close> column (23505). The model starts where a route callback starts: the middleware in
  front of it (helmet, cors, the body parsers, the two rate limiters) has let the
  request through and has left an object in \<open>req.body\<close>. Lines written with
  \<open>console.log\<close> and \<open>console.error\<close> are not part of the state.
\<close>

subsection \<open>Request values and JavaScript strings\<close>

text \<open>
  \<open>req.body.email\<close> is whatever the body parser produced. The callback only tests the
  value for truthiness and calls \<open>toLowerCase\<close> on it, so numbers are kept as integers
  and every array or object is \<open>JObject\<close>.
\<close>

datatype jsvalue = JUndefined | JNull | JBool bool | JNumber int | JString string | JObject

fun truthy :: "jsvalue \<Rightarrow> bool" where
  "truthy JUndefined = False"
| "truthy JNull = False"
| "truthy (JBool b) = b"
| "truthy (JNumber n) = (n \<noteq> 0)"
| "truthy (JString s) = (s \<noteq> [])"
| "truthy JObject = True"

text \<open>
  A \<open>string\<close> is read as a sequence of code units below 256 (Latin-1).
  \<open>String.prototype.toLowerCase\<close> maps A to Z and the capital letters U+00C0 to U+00DE
  (without the multiplication sign U+00D7) to the letter 32 places further on;
  \<open>String.prototype.trim\<close> removes white space and line terminators at both ends,
  which below 256 are TAB, LF, VT, FF, CR, SPACE and NBSP.
\<close>

definition lower_unit :: "char \<Rightarrow> char" where
  "lower_unit c =
     (let n = (of_char c :: nat)
      in if (65 \<le> n \<and> n \<le> 90) \<or> (192 \<le> n \<and> n \<le> 222 \<and> n \<noteq> 215)
         then char_of (n + 32) else c)"

definition toLowerCase :: "string \<Rightarrow> string" where
  "toLowerCase s = map lower_unit s"

definition is_white :: "char \<Rightarrow> bool" where
  "is_white c = ((of_char c :: nat) \<in> {9, 10, 11, 12, 13, 32, 160})"

definition trim :: "string \<Rightarrow> string" where
  "trim s = rev (dropWhile is_white (rev (dropWhile is_white s)))"

text \<open>
  \<open>a || b\<close> on two values that are a string or \<open>undefined\<close>: the left one unless it is
  falsy (\<open>undefined\<close> or the empty string).
\<close>

definition js_or :: "string option \<Rightarrow> string option \<Rightarrow> string option" where
  "js_or a b = (case a of None \<Rightarrow> b | Some s \<Rightarrow> if s = [] then b else Some s)"

text \<open>
  The \<open>validator\<close> package is a dependency, not code of the server: the module object is
  a record of the two functions the server calls, and every definition below takes it as
  an argument.
\<close>

record validator =
  escape :: "string \<Rightarrow> string"
  isEmail :: "string \<Rightarrow> bool"

text \<open>\<open>Buffer.prototype.toString('hex')\<close>: two lower-case digits for each byte.\<close>

definition hex_digit :: "nat \<Rightarrow> char" where
  "hex_digit n = ''0123456789abcdef'' ! (n mod 16)"

definition hex_byte :: "8 word \<Rightarrow> string" where
  "hex_byte b = [hex_digit (unat b div 16), hex_digit (unat b mod 16)]"

definition toString_hex :: "8 word list \<Rightarrow> string" where
  "toString_hex bs = concat (map hex_byte bs)"

subsection \<open>The relation\<close>

text \<open>
  One row of \<open>email_subscribers\<close>. The server writes every column of every row it
  creates, except \<open>ip_address\<close>, which is \<open>NULL\<close> when the request carries no address
  and otherwise holds the address in the form the \<open>INET\<close> type prints it. \<open>id\<close> is a
  \<open>SERIAL\<close>, a 32-bit integer drawn from a sequence that ends at 2147483647.
  Timestamps are instants on an integer time line.
\<close>

record subscriber =
  row_id :: nat
  email :: string
  subscribed_at :: int
  ip_address :: "string option"
  user_agent :: string
  is_active :: bool
  confirmed :: bool
  confirmation_token :: string
  unsubscribe_token :: string

record table =
  rows :: "subscriber list"
  id_seq :: nat

text \<open>
  What a statement reads from outside the table: the clock of the database session
  (\<open>CURRENT_TIMESTAMP\<close>, the calendar day an instant falls on in the session's time zone,
  and the instant at which a calendar day starts there), \<open>gen_random_uuid()\<close>, and the
  input function of the type \<open>INET\<close>, which refuses a text that is no address (\<open>None\<close>)
  and otherwise yields the address in its printed form. On the side of the server:
  the bytes the random generator delivers, in the order it delivers them, and
  \<open>new Date()\<close>. None of these is code of the server, so they are fields of a record.
\<close>

record env =
  current_timestamp :: int
  session_date :: "int \<Rightarrow> int"
  start_of_day :: "int \<Rightarrow> int"
  gen_random_uuid :: string
  inet_in :: "string \<Rightarrow> string option"
  entropy :: "nat \<Rightarrow> 8 word"
  date_now :: int

text \<open>\<open>crypto.randomBytes(n)\<close>: a buffer of exactly \<open>n\<close> bytes.\<close>

definition randomBytes :: "env \<Rightarrow> nat \<Rightarrow> 8 word list" where
  "randomBytes E n = map (entropy E) [0..<n]"

definition current_date :: "env \<Rightarrow> int" where
  "current_date E = session_date E (current_timestamp E)"

text \<open>
  What can reach a \<open>catch\<close> block: a \<open>TypeError\<close> of the callback itself, or an error of
  the database driver, which carries the SQLSTATE in \<open>error.code\<close>.
\<close>

datatype failure = TypeError | PgError string

fun error_code :: "failure \<Rightarrow> string option" where
  "error_code TypeError = None"
| "error_code (PgError c) = Some c"

text \<open>
  \<open>UPDATE email_subscribers SET ... WHERE ... RETURNING ...\<close>: one pass over the rows;
  the result is the new content and the updated rows, in table order.
\<close>

primrec update_where ::
  "(subscriber \<Rightarrow> bool) \<Rightarrow> (subscriber \<Rightarrow> subscriber) \<Rightarrow> subscriber list
     \<Rightarrow> subscriber list \<times> subscriber list" where
  "update_where p f [] = ([], [])"
| "update_where p f (r # rs) =
     (let (rs', hit) = update_where p f rs
      in if p r then (f r # rs', f r # hit) else (r # rs', hit))"

text \<open>\<open>SELECT id, is_active FROM email_subscribers WHERE email = $1\<close>\<close>

definition select_by_email :: "string \<Rightarrow> table \<Rightarrow> (nat \<times> bool) list" where
  "select_by_email e t =
     map (\<lambda>r. (row_id r, is_active r)) (filter (\<lambda>r. email r = e) (rows t))"

text \<open>
  \<open>UPDATE email_subscribers SET is_active = true, subscribed_at = CURRENT_TIMESTAMP
  WHERE email = $1\<close>
\<close>

definition reactivate :: "env \<Rightarrow> string \<Rightarrow> table \<Rightarrow> table" where
  "reactivate E e t =
     t\<lparr>rows := fst (update_where (\<lambda>r. email r = e)
          (\<lambda>r. r\<lparr>is_active := True, subscribed_at := current_timestamp E\<rparr>) (rows t))\<rparr>"

text \<open>
  The parameter for the \<open>INET\<close> column \<open>ip_address\<close>: \<open>undefined\<close> is sent as \<open>NULL\<close>, a
  string goes through the input function of the type when the parameters are bound.
\<close>

definition inet_param :: "env \<Rightarrow> string option \<Rightarrow> failure + string option" where
  "inet_param E ip =
     (case ip of
        None \<Rightarrow> Inr None
      | Some a \<Rightarrow> (case inet_in E a of
                    None \<Rightarrow> Inl (PgError ''22P02'')
                  | Some addr \<Rightarrow> Inr (Some addr)))"

text \<open>
  \<open>INSERT INTO email_subscribers (email, ip_address, user_agent, confirmation_token)
  VALUES ($1, $2, $3, $4)\<close>. A parameter the \<open>INET\<close> type refuses ends the statement
  before it runs. The other columns take their defaults: \<open>id\<close> the next value of the
  sequence (an error once the sequence has passed 2147483647; a value that was handed out
  stays consumed when the statement fails later), \<open>subscribed_at\<close> the current timestamp,
  \<open>is_active\<close> true, \<open>confirmed\<close> false, \<open>unsubscribe_token\<close> a random UUID. \<open>email\<close> and
  \<open>unsubscribe_token\<close> are \<open>UNIQUE\<close>. The two \<open>VARCHAR(255)\<close> parameters fit whenever the
  callback sends them (\<open>create_fits\<close> below).
\<close>

definition insert_subscriber ::
  "env \<Rightarrow> string \<Rightarrow> string option \<Rightarrow> string \<Rightarrow> string \<Rightarrow> table \<Rightarrow> failure option \<times> table" where
  "insert_subscriber E e ip ua tok t =
     (case inet_param E ip of
        Inl err \<Rightarrow> (Some err, t)
      | Inr addr \<Rightarrow>
          if 2147483647 < id_seq t then (Some (PgError ''2200H''), t)
          else
            let r = \<lparr>row_id = id_seq t, email = e, subscribed_at = current_timestamp E,
                      ip_address = addr, user_agent = ua, is_active = True, confirmed = False,
                      confirmation_token = tok, unsubscribe_token = gen_random_uuid E\<rparr>
            in if e \<in> set (map email (rows t))
                  \<or> gen_random_uuid E \<in> set (map unsubscribe_token (rows t))
               then (Some (PgError ''23505''), t\<lparr>id_seq := Suc (id_seq t)\<rparr>)
               else (None, t\<lparr>rows := rows t @ [r], id_seq := Suc (id_seq t)\<rparr>))"

text \<open>
  \<open>UPDATE email_subscribers SET is_active = false WHERE unsubscribe_token = $1
  RETURNING email\<close>
\<close>

definition deactivate :: "string \<Rightarrow> table \<Rightarrow> string list \<times> table" where
  "deactivate token t =
     (let (rs, hit) = update_where (\<lambda>r. unsubscribe_token r = token)
                        (\<lambda>r. r\<lparr>is_active := False\<rparr>) (rows t)
      in (map email hit, t\<lparr>rows := rs\<rparr>))"

subsection \<open>Responses\<close>

text \<open>
  A JSON body is \<open>{success, message}\<close>, or carries the statistics row, the exported rows
  with their count, or the health message with its time stamp. An HTML page is its
  heading and its paragraphs. \<open>res.json\<close> and \<open>res.send\<close> without \<open>res.status\<close> answer 200.
\<close>

record stats =
  total_subscribers :: nat
  active_subscribers :: nat
  confirmed_subscribers :: nat
  today_signups :: nat
  week_signups :: nat
  month_signups :: nat

datatype body =
    Json bool string
  | JsonStats stats
  | JsonExport "(string \<times> int \<times> bool \<times> bool) list" nat
  | JsonHealth string int
  | Html string "string list"

record response =
  status :: nat
  body :: body

subsection \<open>POST /api/subscribe\<close>

record request =
  body_email :: jsvalue
  ip :: "string option"
  remoteAddress :: "string option"
  user_agent_header :: "string option"

text \<open>
  \<open>sanitizeEmail\<close> calls \<open>email.toLowerCase()\<close>: on a truthy value that is not a string
  this is a call of \<open>undefined\<close> (or of a value that is no function) and throws.
\<close>

fun sanitizeEmail :: "validator \<Rightarrow> jsvalue \<Rightarrow> failure + string" where
  "sanitizeEmail V (JString s) = Inr (escape V (trim (toLowerCase s)))"
| "sanitizeEmail V v = Inl TypeError"

definition validateEmail :: "validator \<Rightarrow> string \<Rightarrow> bool" where
  "validateEmail V e = (isEmail V e \<and> length e \<le> 255)"

text \<open>The \<open>catch\<close> block of the callback.\<close>

definition on_error :: "failure \<Rightarrow> response" where
  "on_error err =
     (if error_code err = Some ''23505''
      then \<lparr>status = 409, body = Json False ''This email is already subscribed.''\<rparr>
      else \<lparr>status = 500, body = Json False ''Something went wrong. Please try again later.''\<rparr>)"

text \<open>
  The callback awaits the database twice, and other requests run in between. It is
  therefore split at the second \<open>await\<close>: \<open>subscribe_check\<close> is the callback up to the
  decision it takes from the \<open>SELECT\<close> (an answer, or the statement still to be sent),
  \<open>subscribe_commit\<close> is that statement and the answer after it.
\<close>

datatype pending = Reactivate string | Create string

definition subscribe_check :: "validator \<Rightarrow> request \<Rightarrow> table \<Rightarrow> failure + response + pending" where
  "subscribe_check V req t =
     (if \<not> truthy (body_email req)
      then Inr (Inl \<lparr>status = 400, body = Json False ''Email address is required.''\<rparr>)
      else case sanitizeEmail V (body_email req) of
        Inl err \<Rightarrow> Inl err
      | Inr sanitizedEmail \<Rightarrow>
          if \<not> validateEmail V sanitizedEmail
          then Inr (Inl \<lparr>status = 400, body = Json False ''Please enter a valid email address.''\<rparr>)
          else case select_by_email sanitizedEmail t of
            [] \<Rightarrow> Inr (Inr (Create sanitizedEmail))
          | existing # _ \<Rightarrow>
              if snd existing
              then Inr (Inl \<lparr>status = 409,
                     body = Json False ''This email is already subscribed to our newsletter.''\<rparr>)
              else Inr (Inr (Reactivate sanitizedEmail)))"

definition subscribe_commit :: "env \<Rightarrow> request \<Rightarrow> pending \<Rightarrow> table \<Rightarrow> (failure + response) \<times> table" where
  "subscribe_commit E req p t =
     (case p of
        Reactivate sanitizedEmail \<Rightarrow>
          (Inr \<lparr>status = 200,
                body = Json True ''Welcome back! You've been resubscribed to our newsletter.''\<rparr>,
           reactivate E sanitizedEmail t)
      | Create sanitizedEmail \<Rightarrow>
          (let confirmationToken = toString_hex (randomBytes E 32);
               ua = (case js_or (user_agent_header req) (Some ''Unknown'') of
                       Some s \<Rightarrow> s | None \<Rightarrow> ''Unknown'')
           in case insert_subscriber E sanitizedEmail (js_or (ip req) (remoteAddress req))
                     ua confirmationToken t of
                (Some err, t') \<Rightarrow> (Inl err, t')
              | (None, t') \<Rightarrow>
                  (Inr \<lparr>status = 201,
                        body = Json True ''Thank you! You'll be notified when Auravia launches.''\<rparr>,
                   t')))"

text \<open>
  One run of the callback: \<open>seen\<close> is the table the \<open>SELECT\<close> read and \<open>t\<close> the table the
  second statement meets. The result is the answer and the table after the last statement
  the callback sent. \<open>subscribe\<close> is the run no other request interleaves with.
\<close>

definition subscribe_interleaved ::
  "validator \<Rightarrow> env \<Rightarrow> request \<Rightarrow> table \<Rightarrow> table \<Rightarrow> response \<times> table" where
  "subscribe_interleaved V E req seen t =
     (case subscribe_check V req seen of
        Inl err \<Rightarrow> (on_error err, seen)
      | Inr (Inl res) \<Rightarrow> (res, seen)
      | Inr (Inr p) \<Rightarrow>
          (case subscribe_commit E req p t of
             (Inl err, t') \<Rightarrow> (on_error err, t')
           | (Inr res, t') \<Rightarrow> (res, t')))"

definition subscribe :: "validator \<Rightarrow> env \<Rightarrow> request \<Rightarrow> table \<Rightarrow> response \<times> table" where
  "subscribe V E req t = subscribe_interleaved V E req t t"

subsection \<open>GET /api/stats\<close>

text \<open>
  \<open>COUNT(*) FILTER (WHERE c)\<close> is an aggregate: a counter that a scan of the relation
  advances at every row that satisfies \<open>c\<close>. \<open>CURRENT_DATE\<close> compared with a timestamp
  is the instant the day starts; \<open>CURRENT_DATE - INTERVAL '7 days'\<close> is the start of the
  day seven days earlier.
\<close>

definition count_step :: "(subscriber \<Rightarrow> bool) \<Rightarrow> subscriber \<Rightarrow> nat \<Rightarrow> nat" where
  "count_step c r n = (if c r then Suc n else n)"

definition count_filter :: "(subscriber \<Rightarrow> bool) \<Rightarrow> subscriber list \<Rightarrow> nat" where
  "count_filter c rs = fold (count_step c) rs 0"

definition stats_query :: "env \<Rightarrow> table \<Rightarrow> stats" where
  "stats_query E t =
     \<lparr>total_subscribers = count_filter (\<lambda>r. True) (rows t),
      active_subscribers = count_filter (\<lambda>r. is_active r = True) (rows t),
      confirmed_subscribers = count_filter (\<lambda>r. confirmed r = True) (rows t),
      today_signups =
        count_filter (\<lambda>r. subscribed_at r \<ge> start_of_day E (current_date E)) (rows t),
      week_signups =
        count_filter (\<lambda>r. subscribed_at r \<ge> start_of_day E (current_date E - 7)) (rows t),
      month_signups =
        count_filter (\<lambda>r. subscribed_at r \<ge> start_of_day E (current_date E - 30)) (rows t)\<rparr>"

definition get_stats :: "env \<Rightarrow> table \<Rightarrow> response \<times> table" where
  "get_stats E t = (\<lparr>status = 200, body = JsonStats (stats_query E t)\<rparr>, t)"

subsection \<open>GET /api/export\<close>

text \<open>
  \<open>SELECT email, subscribed_at, is_active, confirmed FROM email_subscribers
  WHERE is_active = true ORDER BY subscribed_at DESC\<close>. SQL leaves the order of rows
  with equal keys open; the model keeps them in table order.
\<close>

definition export_query :: "table \<Rightarrow> (string \<times> int \<times> bool \<times> bool) list" where
  "export_query t =
     map (\<lambda>r. (email r, subscribed_at r, is_active r, confirmed r))
       (sort_key (\<lambda>r. - subscribed_at r) (filter (\<lambda>r. is_active r = True) (rows t)))"

definition get_export :: "table \<Rightarrow> response \<times> table" where
  "get_export t =
     (let subscribers = export_query t
      in (\<lparr>status = 200, body = JsonExport subscribers (length subscribers)\<rparr>, t))"

subsection \<open>GET /api/unsubscribe/:token\<close>

definition unsubscribe :: "string \<Rightarrow> table \<Rightarrow> response \<times> table" where
  "unsubscribe token t =
     (let (result, t') = deactivate token t
      in if length result = 0
         then (\<lparr>status = 404,
                 body = Html ''Invalid Unsubscribe Link''
                   [''This unsubscribe link is invalid or has already been used.'']\<rparr>, t')
         else (\<lparr>status = 200,
                 body = Html ''Successfully Unsubscribed''
                   [''You have been successfully unsubscribed from Auravia's newsletter.'',
                    ''We're sorry to see you go!'']\<rparr>, t'))"

subsection \<open>GET /api/health, unknown routes, and the server as a whole\<close>

definition get_health :: "env \<Rightarrow> table \<Rightarrow> response \<times> table" where
  "get_health E t =
     (\<lparr>status = 200, body = JsonHealth ''Server and database are healthy'' (date_now E)\<rparr>, t)"

definition not_found :: "table \<Rightarrow> response \<times> table" where
  "not_found t = (\<lparr>status = 404, body = Json False ''Endpoint not found''\<rparr>, t)"

datatype route =
    PostSubscribe request
  | GetStats
  | GetExport
  | GetUnsubscribe string
  | GetHealth
  | NoRoute

fun handle :: "validator \<Rightarrow> env \<Rightarrow> route \<Rightarrow> table \<Rightarrow> response \<times> table" where
  "handle V E (PostSubscribe req) t = subscribe V E req t"
| "handle V E GetStats t = get_stats E t"
| "handle V E GetExport t = get_export t"
| "handle V E (GetUnsubscribe token) t = unsubscribe token t"
| "handle V E GetHealth t = get_health E t"
| "handle V E NoRoute t = not_found t"

subsection \<open>The columns that identify a row\<close>

definition identity_columns :: "subscriber \<Rightarrow> nat \<times> string \<times> string" where
  "identity_columns r = (row_id r, email r, unsubscribe_token r)"

subsection \<open>A concrete instance\<close>

text \<open>
  The theorems below hold for every \<open>validator\<close> record and every environment. The
  examples that follow them need one of each: \<open>escape\<close> replaces the eight characters
  that \<open>validator.escape\<close> replaces by their HTML entities, and \<open>isEmail\<close> is taken to
  be the test of the client script, \<open>/^[^\s@]+@[^\s@]+\.[^\s@]+$/\<close>. That test is coarser
  than \<open>validator.isEmail\<close>; the two agree on \<open>a@b.com\<close> (accepted) and
  \<open>not-an-email\<close> (refused), and the server answers the 256-unit address of the
  examples with 400 under either. The session of the example keeps UTC and counts
  seconds. Its \<open>INET\<close> input knows the dotted quads of IPv4 only: four decimal numbers up
  to 255 without leading zeros, which the type prints as they were written; every other
  text is refused, so the examples use no address of another form.
\<close>

definition escape_unit :: "char \<Rightarrow> string" where
  "escape_unit c =
     (if c = CHR ''&'' then ''&amp;''
      else if c = CHR 0x22 then ''&quot;''
      else if c = CHR 0x27 then ''&#x27;''
      else if c = CHR ''<'' then ''&lt;''
      else if c = CHR ''>'' then ''&gt;''
      else if c = CHR ''/'' then ''&#x2F;''
      else if c = CHR 0x5C then ''&#x5C;''
      else if c = CHR 0x60 then ''&#96;''
      else [c])"

definition html_escape :: "string \<Rightarrow> string" where
  "html_escape s = concat (map escape_unit s)"

definition emailRegex_test :: "string \<Rightarrow> bool" where
  "emailRegex_test s =
     (let name = takeWhile (\<lambda>c. c \<noteq> CHR ''@'') s;
          rest = dropWhile (\<lambda>c. c \<noteq> CHR ''@'') s
      in name \<noteq> [] \<and> rest \<noteq> [] \<and> \<not> list_ex is_white s
         \<and> CHR ''@'' \<notin> set (tl rest) \<and> CHR ''.'' \<in> set (butlast (tl (tl rest))))"

definition demo_validator :: validator where
  "demo_validator = \<lparr>escape = html_escape, isEmail = emailRegex_test\<rparr>"

definition split_dots :: "string \<Rightarrow> string list" where
  "split_dots s =
     foldr (\<lambda>c parts. if c = CHR ''.'' then [] # parts else (c # hd parts) # tl parts) s [[]]"

definition decimal_octet :: "string \<Rightarrow> bool" where
  "decimal_octet p =
     (p \<noteq> [] \<and> length p \<le> 3 \<and> list_all (\<lambda>c. c \<in> set ''0123456789'') p
      \<and> (length p = 1 \<or> hd p \<noteq> CHR ''0'')
      \<and> foldl (\<lambda>n c. 10 * n + (of_char c - 48)) (0::nat) p \<le> 255)"

definition dotted_quad :: "string \<Rightarrow> string option" where
  "dotted_quad s =
     (let parts = split_dots s
      in if length parts = 4 \<and> list_all decimal_octet parts then Some s else None)"

definition demo_env :: env where
  "demo_env =
     \<lparr>current_timestamp = 2600000,
      session_date = (\<lambda>i. i div 86400),
      start_of_day = (\<lambda>d. d * 86400),
      gen_random_uuid = ''6f1c2d3e-0000-4000-8000-00000000beef'',
      inet_in = dotted_quad,
      entropy = (\<lambda>i. of_nat (7 * i + 3)),
      date_now = 2600000\<rparr>"

definition demo_request :: "string \<Rightarrow> request" where
  "demo_request s =
     \<lparr>body_email = JString s, ip = Some ''203.0.113.9'', remoteAddress = None,
      user_agent_header = None\<rparr>"

definition demo_row :: "bool \<Rightarrow> subscriber" where
  "demo_row active =
     \<lparr>row_id = 1, email = ''a@b.com'', subscribed_at = 40000,
      ip_address = Some ''203.0.113.9'', user_agent = ''Unknown'', is_active = active,
      confirmed = False, confirmation_token = ''abab'',
      unsubscribe_token = ''11111111-0000-4000-8000-000000000001''\<rparr>"

definition demo_table :: "bool \<Rightarrow> table" where
  "demo_table active = \<lparr>rows = [demo_row active], id_seq = 2\<rparr>"

definition demo_other :: subscriber where
  "demo_other =
     \<lparr>row_id = 2, email = ''c@d.org'', subscribed_at = 2595000,
      ip_address = None, user_agent = ''Mozilla/5.0'', is_active = True,
      confirmed = True, confirmation_token = ''cdcd'',
      unsubscribe_token = ''22222222-0000-4000-8000-000000000002''\<rparr>"

subsection \<open>Start-up and the constraints of the schema\<close>

text \<open>
  \<open>initializeDatabase\<close> sends \<open>CREATE TABLE IF NOT EXISTS\<close> and \<open>CREATE INDEX IF NOT
  EXISTS\<close>: a database without the relation (\<open>None\<close>) gets an empty one whose sequence
  starts at 1, an existing relation is left as it is.
\<close>

definition initializeDatabase :: "table option \<Rightarrow> table option" where
  "initializeDatabase db = (case db of None \<Rightarrow> Some \<lparr>rows = [], id_seq = 1\<rparr> | Some t \<Rightarrow> Some t)"

text \<open>The two \<open>UNIQUE\<close> columns of the schema.\<close>

definition unique_columns :: "table \<Rightarrow> bool" where
  "unique_columns t =
     (distinct (map email (rows t)) \<and> distinct (map unsubscribe_token (rows t)))"

section \<open>Properties\<close>

subsection \<open>The statements as functions on lists\<close>

lemma update_where_rows: "fst (update_where p f rs) = map (\<lambda>r. if p r then f r else r) rs"
  by (induction rs) (simp_all add: split_beta)

lemma update_where_hits: "snd (update_where p f rs) = map f (filter p rs)"
  by (induction rs) (simp_all add: split_beta)

lemma count_filter_fold: "fold (count_step c) rs n = n + length (filter c rs)"
  by (induction rs arbitrary: n) (simp_all add: count_step_def)

lemma count_filter_length: "count_filter c rs = length (filter c rs)"
  by (simp add: count_filter_def count_filter_fold)

lemma filter_key_distinct:
  "x \<in> set xs \<Longrightarrow> distinct (map f xs) \<Longrightarrow> filter (\<lambda>y. f y = f x) xs = [x]"
proof (induction xs)
  case Nil
  then show ?case by simp
next
  case (Cons a as)
  show ?case
  proof (cases "a = x")
    case True
    have "filter (\<lambda>y. f y = f x) as = []"
      using Cons.prems(2) True by (force simp: filter_empty_conv image_iff)
    with True show ?thesis by simp
  next
    case False
    with Cons.prems have "x \<in> set as" "distinct (map f as)" "f a \<noteq> f x"
      by auto
    with Cons.IH show ?thesis by simp
  qed
qed

lemma select_by_email_distinct:
  assumes "r \<in> set (rows t)" "distinct (map email (rows t))"
  shows "select_by_email (email r) t = [(row_id r, is_active r)]"
  using assms by (simp add: select_by_email_def filter_key_distinct)

lemma rows_reactivate:
  "rows (reactivate E e t) =
     map (\<lambda>r. if email r = e then r\<lparr>is_active := True, subscribed_at := current_timestamp E\<rparr> else r)
       (rows t)"
  by (simp add: reactivate_def update_where_rows)

lemma id_seq_reactivate: "id_seq (reactivate E e t) = id_seq t"
  by (simp add: reactivate_def)

lemma deactivate_rows:
  "rows (snd (deactivate token t)) =
     map (\<lambda>r. if unsubscribe_token r = token then r\<lparr>is_active := False\<rparr> else r) (rows t)"
  using update_where_rows [of "\<lambda>r. unsubscribe_token r = token" "\<lambda>r. r\<lparr>is_active := False\<rparr>" "rows t"]
  by (simp add: deactivate_def split_beta)

lemma deactivate_returning:
  "fst (deactivate token t) = map email (filter (\<lambda>r. unsubscribe_token r = token) (rows t))"
  using update_where_hits [of "\<lambda>r. unsubscribe_token r = token" "\<lambda>r. r\<lparr>is_active := False\<rparr>" "rows t"]
  by (simp add: deactivate_def split_beta comp_def)

lemma deactivate_id_seq: "id_seq (snd (deactivate token t)) = id_seq t"
  by (simp add: deactivate_def split_beta)


lemma emails_reactivate: "map email (rows (reactivate E e t)) = map email (rows t)"
  by (simp add: rows_reactivate)

lemma insert_fails_iff:
  "fst (insert_subscriber E e a ua tok t) = Some (PgError ''23505'') \<longleftrightarrow>
     (\<exists>addr. inet_param E a = Inr addr) \<and> id_seq t \<le> 2147483647
     \<and> (e \<in> set (map email (rows t))
          \<or> gen_random_uuid E \<in> set (map unsubscribe_token (rows t)))"
  by (auto simp: insert_subscriber_def inet_param_def Let_def split: sum.splits option.splits)

lemma length_toString_hex: "length (toString_hex bs) = 2 * length bs"
  by (induction bs) (simp_all add: toString_hex_def hex_byte_def)

lemma length_randomBytes: "length (randomBytes E n) = n"
  by (simp add: randomBytes_def)



text \<open>
  What the callback sends for the two \<open>VARCHAR(255)\<close> columns fits: the email has passed
  \<open>validateEmail\<close>, and the confirmation token has 64 digits.
\<close>

lemma create_fits:
  assumes "subscribe_check V req t = Inr (Inr (Create e))"
  shows "length e \<le> 255 \<and> length (toString_hex (randomBytes E 32)) \<le> 255"
proof -
  have "length e \<le> 255"
    using assms
    by (auto simp: subscribe_check_def validateEmail_def
        split: if_splits sum.splits list.splits)
  then show ?thesis
    by (simp add: length_toString_hex length_randomBytes)
qed

lemma deactivate_unknown:
  assumes "token \<notin> set (map unsubscribe_token (rows t))"
  shows "deactivate token t = ([], t)"
proof -
  have none: "filter (\<lambda>r. unsubscribe_token r = token) (rows t) = []"
    using assms by (auto simp: filter_empty_conv)
  have same: "map (\<lambda>r. if unsubscribe_token r = token then r\<lparr>is_active := False\<rparr> else r) (rows t)
      = rows t"
    using assms by (intro map_idI) auto
  have "fst (deactivate token t) = []"
    by (simp add: deactivate_returning none)
  moreover have "snd (deactivate token t) = t"
    using deactivate_rows [of token t] deactivate_id_seq [of token t] same
    by (simp add: deactivate_def split_beta update_where_rows)
  ultimately show ?thesis by (simp add: prod_eq_iff)
qed

subsection \<open>What no statement touches\<close>

lemma identity_reactivate:
  "map identity_columns (rows (reactivate E e t)) = map identity_columns (rows t)"
  by (simp add: rows_reactivate identity_columns_def)

lemma identity_deactivate:
  "map identity_columns (rows (snd (deactivate token t))) = map identity_columns (rows t)"
  by (simp add: deactivate_rows identity_columns_def)

lemma identity_insert:
  "prefix (map identity_columns (rows t))
     (map identity_columns (rows (snd (insert_subscriber E e a ua tok t))))"
  by (simp add: insert_subscriber_def Let_def split: sum.splits)

lemma identity_commit:
  "prefix (map identity_columns (rows t))
     (map identity_columns (rows (snd (subscribe_commit E req p t))))"
proof (cases p)
  case (Reactivate e)
  then show ?thesis by (simp add: subscribe_commit_def identity_reactivate)
next
  case (Create e)
  let ?ins = "insert_subscriber E e (js_or (ip req) (remoteAddress req))
      (case js_or (user_agent_header req) (Some ''Unknown'') of Some s \<Rightarrow> s | None \<Rightarrow> ''Unknown'')
      (toString_hex (randomBytes E 32)) t"
  have "snd (subscribe_commit E req p t) = snd ?ins"
    using Create by (simp add: subscribe_commit_def split: prod.splits option.splits)
  then show ?thesis by (simp add: identity_insert)
qed

lemma identity_subscribe:
  "prefix (map identity_columns (rows t))
     (map identity_columns (rows (snd (subscribe V E req t))))"
proof (cases "subscribe_check V req t")
  case (Inl err)
  then show ?thesis by (simp add: subscribe_def subscribe_interleaved_def)
next
  case (Inr d)
  show ?thesis
  proof (cases d)
    case (Inl res)
    with Inr show ?thesis by (simp add: subscribe_def subscribe_interleaved_def)
  next
    case (Inr p)
    with \<open>subscribe_check V req t = Inr d\<close>
    have "snd (subscribe V E req t) = snd (subscribe_commit E req p t)"
      by (simp add: subscribe_def subscribe_interleaved_def split: prod.splits sum.splits)
    then show ?thesis by (simp add: identity_commit)
  qed
qed

lemma unique_reactivate: "unique_columns (reactivate E e t) = unique_columns t"
proof -
  have "map unsubscribe_token (rows (reactivate E e t)) = map unsubscribe_token (rows t)"
    by (simp add: rows_reactivate)
  then show ?thesis
    by (simp add: unique_columns_def emails_reactivate)
qed

lemma unique_deactivate: "unique_columns (snd (deactivate token t)) = unique_columns t"
proof -
  have "map unsubscribe_token (rows (snd (deactivate token t))) = map unsubscribe_token (rows t)"
    "map email (rows (snd (deactivate token t))) = map email (rows t)"
    by (simp_all add: deactivate_rows)
  then show ?thesis
    by (simp add: unique_columns_def)
qed

lemma unique_insert:
  "unique_columns t \<Longrightarrow> unique_columns (snd (insert_subscriber E e a ua tok t))"
  by (auto simp: unique_columns_def insert_subscriber_def Let_def split: sum.splits)

lemma unique_commit:
  assumes "unique_columns t"
  shows "unique_columns (snd (subscribe_commit E req p t))"
proof (cases p)
  case (Reactivate e)
  with assms show ?thesis by (simp add: subscribe_commit_def unique_reactivate)
next
  case (Create e)
  let ?ins = "insert_subscriber E e (js_or (ip req) (remoteAddress req))
      (case js_or (user_agent_header req) (Some ''Unknown'') of Some s \<Rightarrow> s | None \<Rightarrow> ''Unknown'')
      (toString_hex (randomBytes E 32)) t"
  have "snd (subscribe_commit E req p t) = snd ?ins"
    using Create by (simp add: subscribe_commit_def split: prod.splits option.splits)
  with assms show ?thesis by (simp add: unique_insert)
qed

lemma unique_handle:
  assumes "unique_columns t"
  shows "unique_columns (snd (handle V E rt t))"
proof (cases rt)
  case (PostSubscribe req)
  show ?thesis
  proof (cases "subscribe_check V req t")
    case (Inl err)
    with assms PostSubscribe show ?thesis
      by (simp add: subscribe_def subscribe_interleaved_def)
  next
    case (Inr d)
    show ?thesis
    proof (cases d)
      case (Inl res)
      with assms PostSubscribe \<open>subscribe_check V req t = Inr d\<close> show ?thesis
        by (simp add: subscribe_def subscribe_interleaved_def)
    next
      case (Inr p)
      with \<open>subscribe_check V req t = Inr d\<close>
      have "snd (subscribe V E req t) = snd (subscribe_commit E req p t)"
        by (simp add: subscribe_def subscribe_interleaved_def split: prod.splits sum.splits)
      with assms PostSubscribe show ?thesis by (simp add: unique_commit)
    qed
  qed
next
  case (GetUnsubscribe token)
  with assms show ?thesis
    by (simp add: unsubscribe_def split_beta unique_deactivate)
qed (use assms in \<open>simp_all add: get_stats_def get_export_def Let_def get_health_def not_found_def\<close>)

subsection \<open>The example instance, evaluated\<close>

lemma demo_sanitize: "sanitizeEmail demo_validator (JString '' A@B.com'') = Inr ''a@b.com''"
  by code_simp

lemma demo_valid: "validateEmail demo_validator ''a@b.com''"
  by code_simp

lemma demo_present: "truthy (body_email (demo_request '' A@B.com''))"
  by (simp add: demo_request_def)

lemma demo_normal:
  "sanitizeEmail demo_validator (body_email (demo_request '' A@B.com'')) = Inr ''a@b.com''"
  using demo_sanitize by (simp add: demo_request_def)

lemma demo_check_empty:
  "subscribe_check demo_validator (demo_request '' A@B.com'') \<lparr>rows = [], id_seq = 1\<rparr>
     = Inr (Inr (Create ''a@b.com''))"
  using demo_present demo_normal demo_valid
  by (simp add: subscribe_check_def select_by_email_def)

lemma demo_invalid:
  "sanitizeEmail demo_validator (JString ''not-an-email'') = Inr ''not-an-email''"
  "\<not> isEmail demo_validator ''not-an-email''"
  by code_simp+

lemma demo_inet:
  "inet_param demo_env (Some ''203.0.113.9'') = Inr (Some ''203.0.113.9'')"
  "inet_param demo_env (Some ''not-an-ip'') = Inl (PgError ''22P02'')"
  by code_simp+


lemma demo_long:
  "sanitizeEmail demo_validator (JString (replicate 250 CHR ''a'' @ ''@b.com''))
     = Inr (replicate 250 CHR ''a'' @ ''@b.com'')"
  "isEmail demo_validator (replicate 250 CHR ''a'' @ ''@b.com'')"
  "255 < length (replicate 250 CHR ''a'' @ ''@b.com'')"
  by code_simp+

subsection \<open>Subscribing\<close>

text \<open>
  C1. A request that carries an email whose normalized form passes validation and equals
  the email of a stored row that is not active is answered 200 with the welcome-back
  message; afterwards that row is stored with \<open>is_active\<close> true and \<open>subscribed_at\<close> the
  current timestamp and all its other columns as before, it is the only row with that
  email, and the relation has as many rows as before. The relation keeps \<open>email\<close>
  unique, as its schema demands.
\<close>

theorem subscribe_reactivates:
  assumes present: "truthy (body_email req)"
    and normal: "sanitizeEmail V (body_email req) = Inr (email r)"
    and valid: "validateEmail V (email r)"
    and stored: "r \<in> set (rows t)"
    and inactive: "\<not> is_active r"
    and unique: "distinct (map email (rows t))"
  shows "fst (subscribe V E req t) =
           \<lparr>status = 200,
            body = Json True ''Welcome back! You've been resubscribed to our newsletter.''\<rparr>
         \<and> r\<lparr>is_active := True, subscribed_at := current_timestamp E\<rparr>
             \<in> set (rows (snd (subscribe V E req t)))
         \<and> length (filter (\<lambda>x. email x = email r) (rows (snd (subscribe V E req t)))) = 1
         \<and> length (rows (snd (subscribe V E req t))) = length (rows t)"
proof -
  have sel: "select_by_email (email r) t = [(row_id r, False)]"
    using select_by_email_distinct [OF stored unique] inactive by simp
  have run: "subscribe V E req t =
      (\<lparr>status = 200,
        body = Json True ''Welcome back! You've been resubscribed to our newsletter.''\<rparr>,
       reactivate E (email r) t)"
    using present normal valid sel
    by (simp add: subscribe_def subscribe_interleaved_def subscribe_check_def subscribe_commit_def)
  have member: "r\<lparr>is_active := True, subscribed_at := current_timestamp E\<rparr>
      \<in> set (rows (reactivate E (email r) t))"
    using stored by (force simp: rows_reactivate)
  have "filter (\<lambda>x. email x = email r) (rows (reactivate E (email r) t)) =
      map (\<lambda>x. x\<lparr>is_active := True, subscribed_at := current_timestamp E\<rparr>)
        (filter (\<lambda>x. email x = email r) (rows t))"
    by (simp add: rows_reactivate filter_map comp_def)
  then have one: "length (filter (\<lambda>x. email x = email r) (rows (reactivate E (email r) t))) = 1"
    using filter_key_distinct [OF stored unique] by simp
  show ?thesis
    using member one by (simp add: run rows_reactivate)
qed

theorem subscribe_reactivates_example:
  "fst (subscribe demo_validator demo_env (demo_request '' A@B.com'') (demo_table False)) =
     \<lparr>status = 200,
      body = Json True ''Welcome back! You've been resubscribed to our newsletter.''\<rparr>
   \<and> (demo_row False)\<lparr>is_active := True, subscribed_at := 2600000\<rparr>
       \<in> set (rows (snd (subscribe demo_validator demo_env (demo_request '' A@B.com'')
                           (demo_table False))))
   \<and> length (filter (\<lambda>x. email x = ''a@b.com'')
        (rows (snd (subscribe demo_validator demo_env (demo_request '' A@B.com'')
                      (demo_table False))))) = 1
   \<and> length (rows (snd (subscribe demo_validator demo_env (demo_request '' A@B.com'')
                          (demo_table False)))) = 1"
proof -
  have present: "truthy (body_email (demo_request '' A@B.com''))"
    by (simp add: demo_request_def)
  have normal: "sanitizeEmail demo_validator (body_email (demo_request '' A@B.com''))
      = Inr (email (demo_row False))"
    using demo_sanitize by (simp add: demo_request_def demo_row_def)
  have valid: "validateEmail demo_validator (email (demo_row False))"
    using demo_valid by (simp add: demo_row_def)
  have stored: "demo_row False \<in> set (rows (demo_table False))"
    by (simp add: demo_table_def)
  have inactive: "\<not> is_active (demo_row False)"
    by (simp add: demo_row_def)
  have unique: "distinct (map email (rows (demo_table False)))"
    by (simp add: demo_table_def)
  show ?thesis
    using subscribe_reactivates [OF present normal valid stored inactive unique, of demo_env]
    by (simp add: demo_env_def demo_row_def demo_table_def)
qed





text \<open>
  C3. A request that carries an email whose normalized form passes validation and equals
  the email of a stored row that is active is answered 409, and the table is the same
  afterwards: no row is added and no column of any row changes.
\<close>

theorem subscribe_active_conflict:
  assumes present: "truthy (body_email req)"
    and normal: "sanitizeEmail V (body_email req) = Inr (email r)"
    and valid: "validateEmail V (email r)"
    and stored: "r \<in> set (rows t)"
    and active: "is_active r"
    and unique: "distinct (map email (rows t))"
  shows "subscribe V E req t =
           (\<lparr>status = 409,
             body = Json False ''This email is already subscribed to our newsletter.''\<rparr>, t)"
proof -
  have "select_by_email (email r) t = [(row_id r, True)]"
    using select_by_email_distinct [OF stored unique] active by simp
  then show ?thesis
    using present normal valid
    by (simp add: subscribe_def subscribe_interleaved_def subscribe_check_def)
qed

theorem subscribe_active_conflict_example:
  "subscribe demo_validator demo_env (demo_request '' A@B.com'') (demo_table True) =
     (\<lparr>status = 409,
       body = Json False ''This email is already subscribed to our newsletter.''\<rparr>,
      demo_table True)"
proof -
  have normal: "sanitizeEmail demo_validator (body_email (demo_request '' A@B.com''))
      = Inr (email (demo_row True))"
    using demo_normal by (simp add: demo_row_def)
  have valid: "validateEmail demo_validator (email (demo_row True))"
    using demo_valid by (simp add: demo_row_def)
  have stored: "demo_row True \<in> set (rows (demo_table True))"
    by (simp add: demo_table_def)
  have active: "is_active (demo_row True)"
    by (simp add: demo_row_def)
  have unique: "distinct (map email (rows (demo_table True)))"
    by (simp add: demo_table_def)
  show ?thesis
    by (rule subscribe_active_conflict [OF demo_present normal valid stored active unique])
qed

text \<open>
  C4. When the lookup found no row and the \<open>INSERT\<close>, sent to the table as other requests
  have left it in the meantime, fails with a unique violation (SQLSTATE 23505), the
  answer is 409 with the already-subscribed message, not 500.
\<close>

theorem subscribe_unique_violation:
  assumes check: "subscribe_check V req seen = Inr (Inr (Create e))"
    and conflict: "fst (subscribe_commit E req (Create e) t) = Inl (PgError ''23505'')"
  shows "fst (subscribe_interleaved V E req seen t) =
           \<lparr>status = 409, body = Json False ''This email is already subscribed.''\<rparr>"
proof -
  obtain t' where "subscribe_commit E req (Create e) t = (Inl (PgError ''23505''), t')"
    using conflict by (cases "subscribe_commit E req (Create e) t") simp
  then show ?thesis
    by (simp add: subscribe_interleaved_def check on_error_def)
qed

text \<open>
  The race itself: the lookup ran on the empty relation, and the row for the same email
  was stored before the \<open>INSERT\<close> arrived.
\<close>

theorem subscribe_unique_violation_example:
  "fst (subscribe_interleaved demo_validator demo_env (demo_request '' A@B.com'')
          \<lparr>rows = [], id_seq = 1\<rparr> (demo_table True)) =
     \<lparr>status = 409, body = Json False ''This email is already subscribed.''\<rparr>"
proof -
  have conflict: "fst (subscribe_commit demo_env (demo_request '' A@B.com'')
      (Create ''a@b.com'') (demo_table True)) = Inl (PgError ''23505'')"
    using demo_inet(1)
    by (simp add: subscribe_commit_def insert_subscriber_def demo_request_def js_or_def
        demo_table_def demo_row_def)
  show ?thesis
    by (rule subscribe_unique_violation [OF demo_check_empty conflict])
qed

text \<open>
  C5. A request whose email is missing (or any other falsy value), or is a string whose
  normalized form \<open>isEmail\<close> rejects or that is longer than 255 code units, is answered
  400, and the table is the same afterwards.
\<close>

theorem subscribe_rejects_invalid:
  assumes "\<not> truthy (body_email req)
           \<or> (\<exists>e. sanitizeEmail V (body_email req) = Inr e \<and> (\<not> isEmail V e \<or> 255 < length e))"
  shows "status (fst (subscribe V E req t)) = 400 \<and> snd (subscribe V E req t) = t"
  using assms
  by (auto simp: subscribe_def subscribe_interleaved_def subscribe_check_def validateEmail_def)

text \<open>
  Three rejected requests: \<open>not-an-email\<close>, a body without \<open>email\<close>, and an address of
  256 code units that \<open>isEmail\<close> accepts.
\<close>

theorem subscribe_rejects_invalid_example:
  "status (fst (subscribe demo_validator demo_env (demo_request ''not-an-email'')
                  (demo_table True))) = 400
   \<and> snd (subscribe demo_validator demo_env (demo_request ''not-an-email'') (demo_table True))
       = demo_table True
   \<and> status (fst (subscribe demo_validator demo_env
                  ((demo_request [])\<lparr>body_email := JUndefined\<rparr>) (demo_table True))) = 400
   \<and> snd (subscribe demo_validator demo_env
            ((demo_request [])\<lparr>body_email := JUndefined\<rparr>) (demo_table True))
       = demo_table True
   \<and> isEmail demo_validator (replicate 250 CHR ''a'' @ ''@b.com'')
   \<and> status (fst (subscribe demo_validator demo_env
                  (demo_request (replicate 250 CHR ''a'' @ ''@b.com'')) (demo_table True))) = 400
   \<and> snd (subscribe demo_validator demo_env
            (demo_request (replicate 250 CHR ''a'' @ ''@b.com'')) (demo_table True))
       = demo_table True"
proof -
  have invalid: "\<not> truthy (body_email (demo_request ''not-an-email''))
      \<or> (\<exists>e. sanitizeEmail demo_validator (body_email (demo_request ''not-an-email'')) = Inr e
              \<and> (\<not> isEmail demo_validator e \<or> 255 < length e))"
    using demo_invalid by (simp add: demo_request_def)
  have missing: "\<not> truthy (body_email ((demo_request [])\<lparr>body_email := JUndefined\<rparr>))
      \<or> (\<exists>e. sanitizeEmail demo_validator
                (body_email ((demo_request [])\<lparr>body_email := JUndefined\<rparr>)) = Inr e
              \<and> (\<not> isEmail demo_validator e \<or> 255 < length e))"
    by simp
  have long: "\<not> truthy (body_email (demo_request (replicate 250 CHR ''a'' @ ''@b.com'')))
      \<or> (\<exists>e. sanitizeEmail demo_validator
                (body_email (demo_request (replicate 250 CHR ''a'' @ ''@b.com''))) = Inr e
              \<and> (\<not> isEmail demo_validator e \<or> 255 < length e))"
    using demo_long(1) demo_long(3) by (simp add: demo_request_def)
  show ?thesis
    using subscribe_rejects_invalid [OF invalid, of demo_env "demo_table True"]
      subscribe_rejects_invalid [OF missing, of demo_env "demo_table True"]
      subscribe_rejects_invalid [OF long, of demo_env "demo_table True"]
      demo_long(2)
    by simp
qed

text \<open>
  C10. When the lookup finds an inactive row for the normalized email \<open>e\<close>, the run
  leaves the number of rows and the sequence as they were; at every position the row
  with email \<open>e\<close> differs from the old one in \<open>is_active\<close> (now true) and \<open>subscribed_at\<close>
  (now the current timestamp) alone, so its id, email, address, user agent,
  \<open>confirmed\<close>, confirmation token and unsubscribe token are the old ones, and every
  other row is the old row.
\<close>

theorem reactivation_frame:
  assumes path: "subscribe_check V req t = Inr (Inr (Reactivate e))"
  shows "length (rows (snd (subscribe V E req t))) = length (rows t)
         \<and> id_seq (snd (subscribe V E req t)) = id_seq t
         \<and> (\<forall>i < length (rows t).
               rows (snd (subscribe V E req t)) ! i =
                 (if email (rows t ! i) = e
                  then (rows t ! i)\<lparr>is_active := True, subscribed_at := current_timestamp E\<rparr>
                  else rows t ! i))"
  by (simp add: subscribe_def subscribe_interleaved_def path subscribe_commit_def
      rows_reactivate id_seq_reactivate)

theorem reactivation_frame_example:
  "length (rows (snd (subscribe demo_validator demo_env (demo_request '' A@B.com'')
                        \<lparr>rows = [demo_row False, demo_other], id_seq = 3\<rparr>))) = 2
   \<and> id_seq (snd (subscribe demo_validator demo_env (demo_request '' A@B.com'')
                    \<lparr>rows = [demo_row False, demo_other], id_seq = 3\<rparr>)) = 3
   \<and> rows (snd (subscribe demo_validator demo_env (demo_request '' A@B.com'')
                  \<lparr>rows = [demo_row False, demo_other], id_seq = 3\<rparr>)) ! 0
       = (demo_row False)\<lparr>is_active := True, subscribed_at := 2600000\<rparr>
   \<and> rows (snd (subscribe demo_validator demo_env (demo_request '' A@B.com'')
                  \<lparr>rows = [demo_row False, demo_other], id_seq = 3\<rparr>)) ! 1
       = demo_other"
proof -
  let ?t = "\<lparr>rows = [demo_row False, demo_other], id_seq = 3\<rparr>"
  have path: "subscribe_check demo_validator (demo_request '' A@B.com'') ?t
      = Inr (Inr (Reactivate ''a@b.com''))"
    using demo_present demo_normal demo_valid
    by (simp add: subscribe_check_def select_by_email_def demo_row_def demo_other_def)
  have frame: "\<forall>i<2. rows (snd (subscribe demo_validator demo_env (demo_request '' A@B.com'') ?t)) ! i
      = (if email ([demo_row False, demo_other] ! i) = ''a@b.com''
         then ([demo_row False, demo_other] ! i)\<lparr>is_active := True, subscribed_at := 2600000\<rparr>
         else [demo_row False, demo_other] ! i)"
    using reactivation_frame [OF path, of demo_env] by (simp add: demo_env_def)
  have first: "rows (snd (subscribe demo_validator demo_env (demo_request '' A@B.com'') ?t)) ! 0
      = (demo_row False)\<lparr>is_active := True, subscribed_at := 2600000\<rparr>"
    using frame [rule_format, of 0] by (simp add: demo_row_def)
  have second: "rows (snd (subscribe demo_validator demo_env (demo_request '' A@B.com'') ?t)) ! 1
      = demo_other"
    using frame [rule_format, of 1] by (simp add: demo_other_def)
  show ?thesis
    using reactivation_frame [OF path, of demo_env] first second by simp
qed

subsection \<open>Unsubscribing\<close>

text \<open>
  C7. A token that is the unsubscribe token of no stored row is answered 404 with the
  HTML page for an invalid link, and the table is the same afterwards.
\<close>

theorem unsubscribe_unknown_token:
  assumes "token \<notin> set (map unsubscribe_token (rows t))"
  shows "unsubscribe token t =
           (\<lparr>status = 404,
             body = Html ''Invalid Unsubscribe Link''
               [''This unsubscribe link is invalid or has already been used.'']\<rparr>, t)"
  by (simp add: unsubscribe_def deactivate_unknown [OF assms])

theorem unsubscribe_unknown_token_example:
  "unsubscribe ''no-such-token'' (demo_table True) =
     (\<lparr>status = 404,
       body = Html ''Invalid Unsubscribe Link''
         [''This unsubscribe link is invalid or has already been used.'']\<rparr>, demo_table True)"
proof -
  have unknown: "''no-such-token'' \<notin> set (map unsubscribe_token (rows (demo_table True)))"
    by (simp add: demo_table_def demo_row_def)
  show ?thesis
    by (rule unsubscribe_unknown_token [OF unknown])
qed

text \<open>
  The \<open>UPDATE\<close> of this route selects by token alone. A token that a stored row carries
  therefore always finds its row, whatever \<open>is_active\<close> is.
\<close>

lemma unsubscribe_known_token:
  assumes "token \<in> set (map unsubscribe_token (rows t))"
  shows "status (fst (unsubscribe token t)) = 200"
proof -
  have "filter (\<lambda>r. unsubscribe_token r = token) (rows t) \<noteq> []"
    using assms by (auto simp: filter_empty_conv)
  then have "fst (deactivate token t) \<noteq> []"
    by (simp add: deactivate_returning)
  then show ?thesis
    by (simp add: unsubscribe_def split_beta)
qed

text \<open>
  C6. The claim is that the second visit of an unsubscribe link matches no row and gets
  the 404 page. In this run it does not: the first request for the token of the active
  example row is answered 200 and leaves the row inactive; the same request on that
  table matches the row again (\<open>RETURNING\<close> yields its email) and is answered 200 with
  the same page, although the 404 page is the one that speaks of a link that
  \<open>has already been used\<close>.
\<close>

theorem unsubscribe_repeated:
  "unsubscribe ''11111111-0000-4000-8000-000000000001'' (demo_table True) =
     (\<lparr>status = 200,
       body = Html ''Successfully Unsubscribed''
         [''You have been successfully unsubscribed from Auravia's newsletter.'',
          ''We're sorry to see you go!'']\<rparr>, demo_table False)
   \<and> fst (deactivate ''11111111-0000-4000-8000-000000000001'' (demo_table False)) = [''a@b.com'']
   \<and> unsubscribe ''11111111-0000-4000-8000-000000000001'' (demo_table False) =
     (\<lparr>status = 200,
       body = Html ''Successfully Unsubscribed''
         [''You have been successfully unsubscribed from Auravia's newsletter.'',
          ''We're sorry to see you go!'']\<rparr>, demo_table False)"
  by (simp add: unsubscribe_def deactivate_def demo_table_def demo_row_def)

subsection \<open>Statistics\<close>

text \<open>
  C8. For every table, the statistics route answers 200 with: the number of rows, the
  number of rows with \<open>is_active\<close>, the number with \<open>confirmed\<close>, and the numbers of rows
  whose \<open>subscribed_at\<close> is not before the start of the current day, of the day 7 days
  before it, and of the day 30 days before it; the table is the same afterwards.
\<close>

theorem get_stats_counts:
  "get_stats E t =
     (\<lparr>status = 200,
       body = JsonStats
         \<lparr>total_subscribers = length (rows t),
          active_subscribers = length (filter (\<lambda>r. is_active r) (rows t)),
          confirmed_subscribers = length (filter (\<lambda>r. confirmed r) (rows t)),
          today_signups =
            length (filter (\<lambda>r. start_of_day E (current_date E) \<le> subscribed_at r) (rows t)),
          week_signups =
            length (filter (\<lambda>r. start_of_day E (current_date E - 7) \<le> subscribed_at r) (rows t)),
          month_signups =
            length (filter (\<lambda>r. start_of_day E (current_date E - 30) \<le> subscribed_at r) (rows t))\<rparr>\<rparr>,
      t)"
  by (simp add: get_stats_def stats_query_def count_filter_length)

theorem get_stats_counts_example:
  "get_stats demo_env \<lparr>rows = [demo_row False, demo_other], id_seq = 3\<rparr> =
     (\<lparr>status = 200,
       body = JsonStats \<lparr>total_subscribers = 2, active_subscribers = 1,
                confirmed_subscribers = 1, today_signups = 1, week_signups = 1,
                month_signups = 2\<rparr>\<rparr>,
      \<lparr>rows = [demo_row False, demo_other], id_seq = 3\<rparr>)"
  using get_stats_counts [of demo_env "\<lparr>rows = [demo_row False, demo_other], id_seq = 3\<rparr>"]
  by (simp add: demo_env_def demo_row_def demo_other_def current_date_def)

subsection \<open>Rows are kept\<close>

text \<open>
  C9. Whatever the route, the table after the run starts with the rows it had before, in
  the same order and with the same id, email and unsubscribe token each: no row is
  removed and neither column is rewritten. The same holds for the second statement of
  the subscription callback on any table it may meet, and start-up leaves an existing
  relation as it is.
\<close>

theorem operations_keep_rows:
  "prefix (map identity_columns (rows t))
     (map identity_columns (rows (snd (handle V E rt t))))
   \<and> prefix (map identity_columns (rows t))
       (map identity_columns (rows (snd (subscribe_commit E req p t))))
   \<and> initializeDatabase (Some t) = Some t"
proof (intro conjI)
  show "prefix (map identity_columns (rows t))
     (map identity_columns (rows (snd (handle V E rt t))))"
  proof (cases rt)
    case (PostSubscribe r)
    then show ?thesis by (simp add: identity_subscribe)
  next
    case (GetUnsubscribe token)
    then show ?thesis
      by (simp add: unsubscribe_def split_beta identity_deactivate)
  qed (simp_all add: get_stats_def get_export_def Let_def get_health_def not_found_def)
next
  show "prefix (map identity_columns (rows t))
       (map identity_columns (rows (snd (subscribe_commit E req p t))))"
    by (rule identity_commit)
next
  show "initializeDatabase (Some t) = Some t"
    by (simp add: initializeDatabase_def)
qed

end
